theory Spec2Isabelle
  imports
    Complex_Main
    "HOL-Library.Char_ord"
    "HOL-Library.List_Lexorder"
    "HOL-Library.Product_Lexorder"
begin

section \<open>SmartFarm Italia: the data generator of \<^verbatim>\<open>src/simulatore.py\<close>\<close>

text \<open>
  Conventions of the embedding.
  \<^item> Python floats are read as real numbers: every formula below is exact arithmetic,
    not IEEE double arithmetic.
  \<^item> A timestamp is its proleptic Gregorian ordinal (a whole day, as an \<open>int\<close>); the
    frequency is the default \<^verbatim>\<open>"D"\<close>, so \<^verbatim>\<open>pd.date_range\<close> is the list of
    consecutive days from the start to the end, empty when the end precedes the start.
  \<^item> The numpy generator is a parameter: a state type \<open>'g\<close> with the three sampling
    methods the code calls, each returning the drawn value and the next state.
  \<^item> Everything outside the call is a \<open>world\<close>: the entropy an unseeded generator is
    started from, the clock, and the file system below \<^verbatim>\<open>OUTPUT_DIR\<close>.
  \<^item> A Python exception is a value \<open>Inl e\<close> of the result.
  \<^item> The dates arrive parsed, the seed is a natural number (\<^verbatim>\<open>default_rng\<close> takes no
    negative one), and strings are ASCII.
\<close>

subsection \<open>Data model\<close>

datatype error = IndexError | KeyError string | OSError

record Appezzamento =
  id_appezzamento :: string
  coltura :: string
  superficie_ha :: real
  zona_climatica :: string

definition get_appezzamenti_default :: "Appezzamento list" where
  "get_appezzamenti_default =
     [\<lparr>id_appezzamento = ''A1'', coltura = ''Grano'', superficie_ha = 12.5,
        zona_climatica = ''pianura''\<rparr>,
      \<lparr>id_appezzamento = ''A2'', coltura = ''Mais'', superficie_ha = 8.0,
        zona_climatica = ''collina''\<rparr>,
      \<lparr>id_appezzamento = ''A3'', coltura = ''Ortaggi'', superficie_ha = 5.2,
        zona_climatica = ''pianura''\<rparr>]"

text \<open>
  One row of the table, the dictionary \<^verbatim>\<open>record\<close> of the loop body. The three columns
  copied from the plot carry the prefix \<open>riga_\<close>, the others the name of their column.
\<close>

record riga =
  data :: int
  riga_id_appezzamento :: string
  riga_coltura :: string
  riga_superficie_ha :: real
  temperatura_c :: real
  umidita_suolo_pct :: real
  precipitazioni_mm :: real
  nutrienti_n :: real
  nutrienti_p :: real
  nutrienti_k :: real
  stadio_crescita :: real
  resa_kg_ha :: real
  resa_totale_kg :: real
  costo_totale_eur :: real
  ricavi_totali_eur :: real
  margine_eur :: real

text \<open>
  The generator \<^verbatim>\<open>np.random.Generator\<close>: \<open>rng_seeded s\<close> is the state of
  \<^verbatim>\<open>default_rng(s)\<close>; \<open>rng_normal loc scale\<close>, \<open>rng_random\<close> and
  \<open>rng_uniform low high\<close> are the methods \<^verbatim>\<open>normal\<close>, \<^verbatim>\<open>random\<close> and
  \<^verbatim>\<open>uniform\<close>.
\<close>

record 'g Generator =
  rng_seeded :: "nat \<Rightarrow> 'g"
  rng_normal :: "real \<Rightarrow> real \<Rightarrow> 'g \<Rightarrow> real \<times> 'g"
  rng_random :: "'g \<Rightarrow> real \<times> 'g"
  rng_uniform :: "real \<Rightarrow> real \<Rightarrow> 'g \<Rightarrow> real \<times> 'g"

record world =
  entropy :: nat
  clock :: string
  mkdir_fails :: bool
  write_fails :: "string \<Rightarrow> bool"
  files :: "string \<rightharpoonup> riga list"

subsection \<open>Library functions the code calls\<close>

text \<open>\<^verbatim>\<open>np.clip(x, lo, hi)\<close> is \<^verbatim>\<open>minimum(maximum(x, lo), hi)\<close>.\<close>

definition clip :: "real \<Rightarrow> real \<Rightarrow> real \<Rightarrow> real" where
  "clip x lo hi = min (max x lo) hi"

text \<open>\<^verbatim>\<open>np.rint\<close>: the nearest integer, a tie going to the even one.\<close>

definition rint :: "real \<Rightarrow> int" where
  "rint x =
     (let f = \<lfloor>x\<rfloor>; d = x - of_int f
      in if d < 1 / 2 then f
         else if 1 / 2 < d then f + 1
         else if even f then f else f + 1)"

text \<open>\<^verbatim>\<open>Series.round(3)\<close>: scale by \<open>10\<^sup>3\<close>, round to the nearest integer, scale back.\<close>

definition round3 :: "real \<Rightarrow> real" where
  "round3 x = of_int (rint (x * 1000)) / 1000"

text \<open>\<^verbatim>\<open>str.lower\<close> on ASCII text: the letters \<open>A\<close> to \<open>Z\<close> move to \<open>a\<close> to \<open>z\<close>.\<close>

definition lower_char :: "char \<Rightarrow> char" where
  "lower_char c =
     (let n = (of_char c :: nat) in if 65 \<le> n \<and> n \<le> 90 then char_of (n + 32) else c)"

definition lower :: "string \<Rightarrow> string" where
  "lower s = map lower_char s"

text \<open>
  \<^verbatim>\<open>timetuple().tm_yday\<close> of the day with ordinal \<open>d\<close>, by the cycles of 400, 100, 4
  and 1 years of the Gregorian calendar (day 1 is 1 January of year 1).
\<close>

definition tm_yday :: "int \<Rightarrow> int" where
  "tm_yday d =
     (let n = (d - 1) mod 146097;
          n100 = n div 36524; n' = n mod 36524;
          n'' = n' mod 1461;
          n1 = n'' div 365
      in if n1 = 4 \<or> n100 = 4 then 366 else n'' mod 365 + 1)"

definition date_range :: "int \<Rightarrow> int \<Rightarrow> int list" where
  "date_range data_inizio data_fine = [data_inizio..data_fine]"

definition default_rng :: "'g Generator \<Rightarrow> world \<Rightarrow> nat option \<Rightarrow> 'g" where
  "default_rng R w random_state =
     (case random_state of None \<Rightarrow> rng_seeded R (entropy w) | Some s \<Rightarrow> rng_seeded R s)"

subsection \<open>The body of the loop, one plot on one day\<close>

text \<open>Section 1 of the body: temperature, rain, soil moisture and nutrients.\<close>

definition temperatura :: "'g Generator \<Rightarrow> int \<Rightarrow> 'g \<Rightarrow> real \<times> 'g" where
  "temperatura R d g =
     (let day_of_year = tm_yday d;
          temp_media = 17.5 + 12.5 * sin (2 * pi * (of_int day_of_year - 80) / 365);
          (z, g1) = rng_normal R 0 2 g
      in (temp_media + z, g1))"

definition precipitazioni :: "'g Generator \<Rightarrow> 'g \<Rightarrow> real \<times> 'g" where
  "precipitazioni R g =
     (let (u, g1) = rng_random R g
      in if u < 0.3 then (let (z, g2) = rng_normal R 10 8 g1 in (max 0 z, g2))
         else (0, g1))"

definition umidita_successiva :: "'g Generator \<Rightarrow> real \<Rightarrow> real \<Rightarrow> 'g \<Rightarrow> real \<times> 'g" where
  "umidita_successiva R prev prec g =
     (let (u, g1) = rng_uniform R 0.1 0.8 g;
          delta = - u;
          (delta, g2) =
            (if prec > 0
             then (let (r, g') = rng_uniform R 0.3 0.6 g1 in (delta + min 20 (prec * r), g'))
             else (delta, g1))
      in (clip (prev + delta) 10 90, g2))"

definition nutrienti_successivi ::
  "'g Generator \<Rightarrow> riga \<Rightarrow> 'g \<Rightarrow> (real \<times> real \<times> real) \<times> 'g" where
  "nutrienti_successivi R ultimo g =
     (let (un, g1) = rng_uniform R 0.05 0.3 g;
          n = max 5 (nutrienti_n ultimo - un);
          (up, g2) = rng_uniform R 0.02 0.15 g1;
          p = max 5 (nutrienti_p ultimo - up);
          (uk, g3) = rng_uniform R 0.05 0.25 g2;
          k = max 5 (nutrienti_k ultimo - uk);
          (u, g4) = rng_random R g3
      in if u < 0.03
         then (let (bn, g5) = rng_uniform R 10 25 g4;
                   (bp, g6) = rng_uniform R 5 15 g5;
                   (bk, g7) = rng_uniform R 8 20 g6
               in ((n + bn, p + bp, k + bk), g7))
         else ((n, p, k), g4))"

text \<open>
  On the first day of a plot the four values are drawn afresh; on a later day they come
  from \<^verbatim>\<open>records[-1]\<close>, which raises \<^verbatim>\<open>IndexError\<close> on an empty list.
\<close>

definition suolo ::
  "'g Generator \<Rightarrow> riga list \<Rightarrow> nat \<Rightarrow> real \<Rightarrow> 'g
     \<Rightarrow> error + ((real \<times> real \<times> real \<times> real) \<times> 'g)" where
  "suolo R records i prec g =
     (if i = 0 then
        (let (um, g1) = rng_uniform R 30 60 g;
             (n, g2) = rng_uniform R 40 80 g1;
             (p, g3) = rng_uniform R 20 50 g2;
             (k, g4) = rng_uniform R 30 70 g3
         in Inr ((um, n, p, k), g4))
      else if records = [] then Inl IndexError
      else
        (let (um, g1) = umidita_successiva R (umidita_suolo_pct (last records)) prec g;
             ((n, p, k), g2) = nutrienti_successivi R (last records) g1
         in Inr ((um, n, p, k), g2)))"

text \<open>Section 2 of the body: growth stage and yield.\<close>

definition crescita :: "'g Generator \<Rightarrow> string \<Rightarrow> real \<Rightarrow> 'g \<Rightarrow> real \<times> 'g" where
  "crescita R col progress g =
     (let stadio_base =
            (if lower col \<in> {''grano'', ''mais''}
             then clip (sin (pi * progress)) 0 1
             else clip (0.3 + 0.7 * progress) 0 1);
          (z, g1) = rng_normal R 0 0.05 g
      in (clip (stadio_base + z) 0 1, g1))"

definition resa ::
  "'g Generator \<Rightarrow> real \<Rightarrow> real \<Rightarrow> real \<Rightarrow> real \<Rightarrow> real \<Rightarrow> real \<Rightarrow> 'g
     \<Rightarrow> (real \<times> real) \<times> 'g" where
  "resa R stadio um n p k area g =
     (let resa_potenziale = stadio * 80;
          penalita_umidita =
            (if um < 25 \<or> um > 80 then 0.3
             else if um < 35 \<or> um > 70 then 0.15 else 0);
          media_nutrients = (n + p + k) / 3;
          penalita_nutrienti =
            (if media_nutrients < 20 then 0.4
             else if media_nutrients < 35 then 0.2 else 0);
          fattore_penalizzante = max 0.1 (1 - (penalita_umidita + penalita_nutrienti));
          (z, g1) = rng_normal R 0 3 g;
          kg_ha = max 0 (resa_potenziale * fattore_penalizzante + z)
      in ((kg_ha, kg_ha * area), g1))"

text \<open>Section 3 of the body: costs, revenue and margin.\<close>

definition economia ::
  "'g Generator \<Rightarrow> string \<Rightarrow> real \<Rightarrow> 'g \<Rightarrow> (real \<times> real \<times> real) \<times> 'g" where
  "economia R col tot_kg g =
     (let (z1, g1) = rng_normal R 0 3 g;
          costo_manodopera = 25 + z1;
          (z2, g2) = rng_normal R 0 2 g1;
          costo_input = 10 + z2;
          costo = max 0 (costo_manodopera + costo_input);
          prezzo_kg =
            (if lower col = ''grano'' then 0.25
             else if lower col = ''mais'' then 0.22 else 0.8);
          ricavi = max 0 (tot_kg * prezzo_kg)
      in ((costo, ricavi, ricavi - costo), g2))"

definition giorno ::
  "'g Generator \<Rightarrow> Appezzamento \<Rightarrow> int \<Rightarrow> nat \<Rightarrow> int \<Rightarrow> riga list \<Rightarrow> 'g
     \<Rightarrow> error + (riga \<times> 'g)" where
  "giorno R appez giorni_totali i d records g =
     (let progress = real i / of_int (max (giorni_totali - 1) 1);
          (temp, g1) = temperatura R d g;
          (prec, g2) = precipitazioni R g1
      in case suolo R records i prec g2 of
           Inl e \<Rightarrow> Inl e
         | Inr ((um, n, p, k), g3) \<Rightarrow>
             (let (stadio, g4) = crescita R (coltura appez) progress g3;
                  ((kg_ha, tot_kg), g5) = resa R stadio um n p k (superficie_ha appez) g4;
                  ((costo, ricavi, margine), g6) = economia R (coltura appez) tot_kg g5
              in Inr (\<lparr>data = d,
                        riga_id_appezzamento = id_appezzamento appez,
                        riga_coltura = coltura appez,
                        riga_superficie_ha = superficie_ha appez,
                        temperatura_c = temp,
                        umidita_suolo_pct = um,
                        precipitazioni_mm = prec,
                        nutrienti_n = n,
                        nutrienti_p = p,
                        nutrienti_k = k,
                        stadio_crescita = stadio,
                        resa_kg_ha = kg_ha,
                        resa_totale_kg = tot_kg,
                        costo_totale_eur = costo,
                        ricavi_totali_eur = ricavi,
                        margine_eur = margine\<rparr>, g6)))"

subsection \<open>The two loops\<close>

text \<open>
  \<^verbatim>\<open>for i, data in enumerate(date_index)\<close>: the list \<open>records\<close> and the generator are
  the state carried from one day to the next.
\<close>

fun ciclo_giorni ::
  "'g Generator \<Rightarrow> Appezzamento \<Rightarrow> int \<Rightarrow> nat \<Rightarrow> int list \<Rightarrow> riga list \<Rightarrow> 'g
     \<Rightarrow> error + (riga list \<times> 'g)" where
  "ciclo_giorni R appez tot i [] records g = Inr (records, g)"
| "ciclo_giorni R appez tot i (d # ds) records g =
     (case giorno R appez tot i d records g of
        Inl e \<Rightarrow> Inl e
      | Inr (r, g') \<Rightarrow> ciclo_giorni R appez tot (Suc i) ds (records @ [r]) g')"

text \<open>\<^verbatim>\<open>for appez in appezzamenti\<close>: each plot restarts the day index at 0.\<close>

fun ciclo_appezzamenti ::
  "'g Generator \<Rightarrow> int \<Rightarrow> int list \<Rightarrow> Appezzamento list \<Rightarrow> riga list \<Rightarrow> 'g
     \<Rightarrow> error + (riga list \<times> 'g)" where
  "ciclo_appezzamenti R tot date_index [] records g = Inr (records, g)"
| "ciclo_appezzamenti R tot date_index (appez # rest) records g =
     (case ciclo_giorni R appez tot 0 date_index records g of
        Inl e \<Rightarrow> Inl e
      | Inr (records', g') \<Rightarrow> ciclo_appezzamenti R tot date_index rest records' g')"

subsection \<open>Table assembly, rounding and export\<close>

text \<open>
  \<^verbatim>\<open>DataFrame.from_records([])\<close> has no columns, and sorting it by the columns
  \<^verbatim>\<open>data\<close> and \<^verbatim>\<open>id_appezzamento\<close> raises \<^verbatim>\<open>KeyError\<close>; otherwise the rows are
  sorted by date, then by plot identifier, rows with equal keys keeping their order.
\<close>

definition sort_values :: "riga list \<Rightarrow> error + riga list" where
  "sort_values df =
     (if df = [] then Inl (KeyError ''data'')
      else Inr (sort_key (\<lambda>r. (data r, riga_id_appezzamento r)) df))"

text \<open>Every numeric column is rounded to three decimals.\<close>

definition arrotonda :: "riga \<Rightarrow> riga" where
  "arrotonda r =
     r\<lparr>riga_superficie_ha := round3 (riga_superficie_ha r),
       temperatura_c := round3 (temperatura_c r),
       umidita_suolo_pct := round3 (umidita_suolo_pct r),
       precipitazioni_mm := round3 (precipitazioni_mm r),
       nutrienti_n := round3 (nutrienti_n r),
       nutrienti_p := round3 (nutrienti_p r),
       nutrienti_k := round3 (nutrienti_k r),
       stadio_crescita := round3 (stadio_crescita r),
       resa_kg_ha := round3 (resa_kg_ha r),
       resa_totale_kg := round3 (resa_totale_kg r),
       costo_totale_eur := round3 (costo_totale_eur r),
       ricavi_totali_eur := round3 (ricavi_totali_eur r),
       margine_eur := round3 (margine_eur r)\<rparr>"

text \<open>
  The block under \<^verbatim>\<open>if salva_csv\<close>: create the directory, choose the file name (the
  caller's, or one made from the clock), write the table. Either step may raise
  \<^verbatim>\<open>OSError\<close>, which leaves the function before \<^verbatim>\<open>return df\<close>.
\<close>

definition nome_csv :: "world \<Rightarrow> string option \<Rightarrow> string" where
  "nome_csv w nome_file =
     (case nome_file of
        None \<Rightarrow> ''smartfarm_dati_'' @ clock w @ ''.csv''
      | Some n \<Rightarrow> n)"

definition salva :: "world \<Rightarrow> string option \<Rightarrow> riga list \<Rightarrow> (error + riga list) \<times> world" where
  "salva w nome_file df =
     (if mkdir_fails w then (Inl OSError, w)
      else
        (let nome = nome_csv w nome_file
         in if write_fails w nome then (Inl OSError, w)
            else (Inr df, w\<lparr>files := (files w)(nome \<mapsto> df)\<rparr>)))"

subsection \<open>The generator function\<close>

definition genera_dati ::
  "'g Generator \<Rightarrow> world \<Rightarrow> int \<Rightarrow> int \<Rightarrow> Appezzamento list option \<Rightarrow> nat option
     \<Rightarrow> bool \<Rightarrow> string option \<Rightarrow> (error + riga list) \<times> world" where
  "genera_dati R w data_inizio data_fine appezzamenti random_state salva_csv nome_file =
     (let rng = default_rng R w random_state;
          date_index = date_range data_inizio data_fine;
          apps = (case appezzamenti of None \<Rightarrow> get_appezzamenti_default | Some l \<Rightarrow> l)
      in if date_index = [] then (Inl IndexError, w)
         else
           (let giorni_totali = last date_index - hd date_index + 1
            in case ciclo_appezzamenti R giorni_totali date_index apps [] rng of
                 Inl e \<Rightarrow> (Inl e, w)
               | Inr (records, rng') \<Rightarrow>
                   (case sort_values records of
                      Inl e \<Rightarrow> (Inl e, w)
                    | Inr sorted_df \<Rightarrow>
                        (let df = map arrotonda sorted_df
                         in if salva_csv then salva w nome_file df else (Inr df, w)))))"

subsection \<open>Notions used to state the properties\<close>

text \<open>The running state a plot carries from one day to the next.\<close>

definition stato_suolo :: "riga \<Rightarrow> real \<times> real \<times> real \<times> real" where
  "stato_suolo r = (umidita_suolo_pct r, nutrienti_n r, nutrienti_p r, nutrienti_k r)"

text \<open>
  What numpy documents of \<^verbatim>\<open>Generator.uniform(low, high)\<close>: the drawn value lies
  between the two bounds.
\<close>

definition uniform_in_range :: "'g Generator \<Rightarrow> bool" where
  "uniform_in_range R \<longleftrightarrow>
     (\<forall>lo hi g. lo \<le> hi \<longrightarrow>
        lo \<le> fst (rng_uniform R lo hi g) \<and> fst (rng_uniform R lo hi g) \<le> hi)"

text \<open>The bounds of a row.\<close>

definition entro_limiti :: "riga \<Rightarrow> bool" where
  "entro_limiti r \<longleftrightarrow>
     10 \<le> umidita_suolo_pct r \<and> umidita_suolo_pct r \<le> 90 \<and>
     0 \<le> precipitazioni_mm r \<and>
     5 \<le> nutrienti_n r \<and> 5 \<le> nutrienti_p r \<and> 5 \<le> nutrienti_k r \<and>
     0 \<le> stadio_crescita r \<and> stadio_crescita r \<le> 1 \<and>
     0 \<le> resa_kg_ha r \<and> 0 \<le> costo_totale_eur r \<and> 0 \<le> ricavi_totali_eur r"

text \<open>The yield rule as the specification words it, to be compared with \<open>resa\<close>.\<close>

definition spec_moisture_penalty :: "real \<Rightarrow> real" where
  "spec_moisture_penalty m =
     (if m < 25 \<or> m > 80 then 0.3 else if m < 35 \<or> m > 70 then 0.15 else 0)"

definition spec_nutrient_penalty :: "real \<Rightarrow> real \<Rightarrow> real \<Rightarrow> real" where
  "spec_nutrient_penalty n p k =
     (let mean = (n + p + k) / 3
      in if mean < 20 then 0.4 else if mean < 35 then 0.2 else 0)"

definition spec_yield_kg_ha ::
  "real \<Rightarrow> real \<Rightarrow> real \<Rightarrow> real \<Rightarrow> real \<Rightarrow> real \<Rightarrow> real" where
  "spec_yield_kg_ha growth_stage m n p k noise =
     (let potential = growth_stage * 80;
          factor = max 0.1 (1 - spec_moisture_penalty m - spec_nutrient_penalty n p k)
      in max 0 (potential * factor + noise))"

text \<open>A small generator, two worlds and one more plot, to run the functions on.\<close>

definition rng_esempio :: "nat Generator" where
  "rng_esempio =
     \<lparr>rng_seeded = (\<lambda>s. s),
      rng_normal = (\<lambda>loc scale n. (loc + scale * ((real (n mod 7) - 3) / 2), Suc n)),
      rng_random = (\<lambda>n. (real (n mod 10) / 10, Suc n)),
      rng_uniform = (\<lambda>lo hi n. (lo + (hi - lo) * (real (n mod 10) / 10), Suc n))\<rparr>"

definition mondo_esempio :: world where
  "mondo_esempio =
     \<lparr>entropy = 7, clock = ''20240101_120000'', mkdir_fails = False,
      write_fails = (\<lambda>_. False), files = Map.empty\<rparr>"

definition mondo_guasto :: world where
  "mondo_guasto = mondo_esempio\<lparr>mkdir_fails := True\<rparr>"

definition a3_nuovo :: Appezzamento where
  "a3_nuovo = \<lparr>id_appezzamento = ''B9'', coltura = ''Grano'', superficie_ha = 1,
               zona_climatica = ''collina''\<rparr>"

section \<open>Properties\<close>

subsection \<open>Rounding\<close>

lemma rint_lower: "\<lfloor>x\<rfloor> \<le> rint x"
  by (simp add: rint_def Let_def)

lemma rint_ge: "of_int n \<le> x \<Longrightarrow> n \<le> rint x"
  using rint_lower [of x] by (meson le_floor_iff order_trans)

lemma rint_le:
  assumes "x \<le> of_int n"
  shows "rint x \<le> n"
proof (cases "x = of_int n")
  case True
  then show ?thesis by (simp add: rint_def)
next
  case False
  with assms have "x < of_int n" by simp
  then have "\<lfloor>x\<rfloor> < n" by (simp add: floor_less_iff)
  then show ?thesis by (simp add: rint_def Let_def)
qed

lemma rint_err: "\<bar>of_int (rint x) - x\<bar> \<le> 1 / 2"
  unfolding rint_def Let_def by (auto simp: abs_le_iff)

lemma round3_ge:
  assumes "of_int n \<le> x"
  shows "of_int n \<le> round3 x"
proof -
  from assms have "of_int (n * 1000) \<le> x * 1000" by simp
  then have "n * 1000 \<le> rint (x * 1000)" by (rule rint_ge)
  then have "(of_int (n * 1000) :: real) \<le> of_int (rint (x * 1000))"
    by (simp only: of_int_le_iff)
  then show ?thesis by (simp add: round3_def)
qed

lemma round3_le:
  assumes "x \<le> of_int n"
  shows "round3 x \<le> of_int n"
proof -
  from assms have "x * 1000 \<le> of_int (n * 1000)" by simp
  then have "rint (x * 1000) \<le> n * 1000" by (rule rint_le)
  then have "(of_int (rint (x * 1000)) :: real) \<le> of_int (n * 1000)"
    by (simp only: of_int_le_iff)
  then show ?thesis by (simp add: round3_def)
qed

subsection \<open>One day\<close>

lemma snd_crescita: "snd (crescita R col progress g) = snd (rng_normal R 0 0.05 g)"
  by (simp add: crescita_def Let_def case_prod_beta)

lemma snd_resa: "snd (resa R stadio um n p k area g) = snd (rng_normal R 0 3 g)"
  unfolding resa_def Let_def by (simp only: split_beta snd_conv)

lemma snd_economia:
  "snd (economia R col kg g) = snd (rng_normal R 0 2 (snd (rng_normal R 0 3 g)))"
  by (simp add: economia_def Let_def case_prod_beta)

lemma nutrienti_successivi_cong:
  "nutrienti_n u = nutrienti_n u' \<Longrightarrow> nutrienti_p u = nutrienti_p u' \<Longrightarrow>
   nutrienti_k u = nutrienti_k u' \<Longrightarrow>
   nutrienti_successivi R u g = nutrienti_successivi R u' g"
  by (simp add: nutrienti_successivi_def)

lemma suolo_ok: "i = 0 \<or> records \<noteq> [] \<Longrightarrow> \<exists>x. suolo R records i prec g = Inr x"
  by (auto simp: suolo_def Let_def split: prod.splits)

lemma suolo_cong:
  assumes "i = 0 \<or> (records \<noteq> [] \<and> records' \<noteq> [] \<and>
             stato_suolo (last records) = stato_suolo (last records'))"
  shows "suolo R records i prec g = suolo R records' i prec g"
proof (cases "i = 0")
  case True
  then show ?thesis by (simp add: suolo_def)
next
  case False
  with assms have ne: "records \<noteq> []" "records' \<noteq> []"
    and st: "stato_suolo (last records) = stato_suolo (last records')" by auto
  from st have "nutrienti_successivi R (last records) = nutrienti_successivi R (last records')"
    by (intro ext nutrienti_successivi_cong) (simp_all add: stato_suolo_def)
  moreover from st have "umidita_suolo_pct (last records) = umidita_suolo_pct (last records')"
    by (simp add: stato_suolo_def)
  ultimately show ?thesis using False ne by (simp add: suolo_def)
qed

text \<open>The body of the loop, with the draws of the three later sections named.\<close>

lemma giorno_Inl:
  "suolo R records i (fst (precipitazioni R (snd (temperatura R d g))))
     (snd (precipitazioni R (snd (temperatura R d g)))) = Inl e \<Longrightarrow>
   giorno R appez tot i d records g = Inl e"
  by (simp add: giorno_def Let_def case_prod_beta)

lemma giorno_Inr:
  assumes "suolo R records i (fst (precipitazioni R (snd (temperatura R d g))))
     (snd (precipitazioni R (snd (temperatura R d g)))) = Inr ((um, n, p, k), g3)"
  shows "giorno R appez tot i d records g =
    (let progress = real i / of_int (max (tot - 1) 1);
         c = crescita R (coltura appez) progress g3;
         y = resa R (fst c) um n p k (superficie_ha appez) (snd c);
         e = economia R (coltura appez) (snd (fst y)) (snd y)
     in Inr (\<lparr>data = d,
               riga_id_appezzamento = id_appezzamento appez,
               riga_coltura = coltura appez,
               riga_superficie_ha = superficie_ha appez,
               temperatura_c = fst (temperatura R d g),
               umidita_suolo_pct = um,
               precipitazioni_mm = fst (precipitazioni R (snd (temperatura R d g))),
               nutrienti_n = n,
               nutrienti_p = p,
               nutrienti_k = k,
               stadio_crescita = fst c,
               resa_kg_ha = fst (fst y),
               resa_totale_kg = snd (fst y),
               costo_totale_eur = fst (fst e),
               ricavi_totali_eur = fst (snd (fst e)),
               margine_eur = snd (snd (fst e))\<rparr>, snd e))"
  using assms by (simp add: giorno_def Let_def case_prod_beta)

lemma giorno_ok:
  assumes "i = 0 \<or> records \<noteq> []"
  shows "\<exists>r g'. giorno R appez tot i d records g = Inr (r, g')"
proof -
  from suolo_ok [OF assms, of R "fst (precipitazioni R (snd (temperatura R d g)))"
      "snd (precipitazioni R (snd (temperatura R d g)))"]
  obtain um n p k g3 where
    "suolo R records i (fst (precipitazioni R (snd (temperatura R d g))))
      (snd (precipitazioni R (snd (temperatura R d g)))) = Inr ((um, n, p, k), g3)"
    by (metis prod.exhaust)
  from giorno_Inr [OF this] show ?thesis by (simp add: Let_def)
qed

lemma giorno_prefix:
  assumes "i = 0 \<or> records \<noteq> []"
  shows "giorno R appez tot i d (pre @ records) g = giorno R appez tot i d records g"
proof -
  have "suolo R (pre @ records) i prec g' = suolo R records i prec g'" for prec g'
    using assms by (intro suolo_cong) auto
  then show ?thesis by (simp add: giorno_def)
qed

lemma giorno_id:
  "giorno R appez tot i d records g = Inr (r, g') \<Longrightarrow>
   riga_id_appezzamento r = id_appezzamento appez"
  by (auto simp: giorno_def Let_def case_prod_beta split: sum.splits)

lemma giorno_margine:
  "giorno R appez tot i d records g = Inr (r, g') \<Longrightarrow>
   margine_eur r = ricavi_totali_eur r - costo_totale_eur r"
  by (auto simp: giorno_def economia_def Let_def case_prod_beta split: sum.splits)

lemma giorno_stato:
  assumes c: "i = 0 \<or> (records \<noteq> [] \<and> records' \<noteq> [] \<and>
             stato_suolo (last records) = stato_suolo (last records'))"
    and g: "giorno R a tot i d records g = Inr (r, g1)"
  shows "\<exists>r'. giorno R a' tot i d records' g = Inr (r', g1) \<and> stato_suolo r' = stato_suolo r"
proof -
  let ?prec = "fst (precipitazioni R (snd (temperatura R d g)))"
  let ?g2 = "snd (precipitazioni R (snd (temperatura R d g)))"
  from c have "i = 0 \<or> records \<noteq> []" by auto
  from suolo_ok [OF this, of R ?prec ?g2] obtain um n p k g3 where
    s: "suolo R records i ?prec ?g2 = Inr ((um, n, p, k), g3)"
    by (metis prod.exhaust)
  with suolo_cong [OF c, of R ?prec ?g2] have s': "suolo R records' i ?prec ?g2 = Inr ((um, n, p, k), g3)"
    by simp
  from g show ?thesis
    unfolding giorno_Inr [OF s] giorno_Inr [OF s']
    by (auto simp: Let_def stato_suolo_def snd_crescita snd_resa snd_economia)
qed

lemma ciclo_giorni_blocco:
  assumes P: "\<And>i d recs g r g'. giorno R a tot i d recs g = Inr (r, g') \<Longrightarrow> P r"
    and c: "i = 0 \<or> records \<noteq> []"
  shows "\<exists>blk g'. ciclo_giorni R a tot i ds records g = Inr (records @ blk, g') \<and>
           length blk = length ds \<and> (\<forall>r\<in>set blk. P r)"
  using c
proof (induction ds arbitrary: i records g)
  case Nil
  then show ?case by simp
next
  case (Cons d ds)
  from giorno_ok [OF Cons.prems, of R a tot d g] obtain r g1 where
    g: "giorno R a tot i d records g = Inr (r, g1)" by blast
  have "Suc i = 0 \<or> records @ [r] \<noteq> []" by simp
  from Cons.IH [OF this, of g1] obtain blk g' where
    b: "ciclo_giorni R a tot (Suc i) ds (records @ [r]) g1 = Inr ((records @ [r]) @ blk, g')"
      "length blk = length ds" "\<forall>x\<in>set blk. P x" by blast
  from g b P [OF g] show ?case
    by (intro exI [of _ "r # blk"] exI [of _ g']) simp
qed

lemma ciclo_giorni_prefix:
  assumes "i = 0 \<or> records \<noteq> []"
  shows "ciclo_giorni R a tot i ds (pre @ records) g =
         map_sum id (\<lambda>(out, g'). (pre @ out, g')) (ciclo_giorni R a tot i ds records g)"
  using assms
proof (induction ds arbitrary: i records g)
  case Nil
  then show ?case by simp
next
  case (Cons d ds)
  from giorno_ok [OF Cons.prems, of R a tot d g] obtain r g1 where
    g: "giorno R a tot i d records g = Inr (r, g1)" by blast
  have "Suc i = 0 \<or> records @ [r] \<noteq> []" by simp
  from Cons.IH [OF this, of g1] g giorno_prefix [OF Cons.prems, of R a tot d pre g]
  show ?case by simp
qed

lemma ciclo_giorni_stato:
  assumes "i = 0 \<or> (records \<noteq> [] \<and> records' \<noteq> [] \<and>
             stato_suolo (last records) = stato_suolo (last records'))"
  shows "map_sum id snd (ciclo_giorni R a tot i ds records g) =
         map_sum id snd (ciclo_giorni R a' tot i ds records' g)"
  using assms
proof (induction ds arbitrary: i records records' g)
  case Nil
  then show ?case by simp
next
  case (Cons d ds)
  from Cons.prems have "i = 0 \<or> records \<noteq> []" by auto
  from giorno_ok [OF this, of R a tot d g] obtain r g1 where
    g: "giorno R a tot i d records g = Inr (r, g1)" by blast
  from giorno_stato [OF Cons.prems g] obtain r' where
    g': "giorno R a' tot i d records' g = Inr (r', g1)"
    and st: "stato_suolo r' = stato_suolo r" by blast
  have "Suc i = 0 \<or> (records @ [r] \<noteq> [] \<and> records' @ [r'] \<noteq> [] \<and>
          stato_suolo (last (records @ [r])) = stato_suolo (last (records' @ [r'])))"
    using st by simp
  from Cons.IH [OF this, of g1] g g' show ?case by simp
qed

lemma ciclo_appezzamenti_append:
  "ciclo_appezzamenti R tot ds (xs @ ys) records g =
     (case ciclo_appezzamenti R tot ds xs records g of
        Inl e \<Rightarrow> Inl e
      | Inr (records', g') \<Rightarrow> ciclo_appezzamenti R tot ds ys records' g')"
  by (induction xs arbitrary: records g) (auto split: sum.splits)

lemma ciclo_appezzamenti_blocco:
  assumes P: "\<And>a i d recs g r g'. giorno R a tot i d recs g = Inr (r, g') \<Longrightarrow> P r"
  shows "\<exists>out g'. ciclo_appezzamenti R tot ds apps records g = Inr (records @ out, g') \<and>
           length out = length apps * length ds \<and> (\<forall>r\<in>set out. P r)"
proof (induction apps arbitrary: records g)
  case Nil
  then show ?case by simp
next
  case (Cons a apps)
  have "\<exists>blk g1. ciclo_giorni R a tot 0 ds records g = Inr (records @ blk, g1) \<and>
           length blk = length ds \<and> (\<forall>r\<in>set blk. P r)"
    by (rule ciclo_giorni_blocco) (auto intro: P)
  then obtain blk g1 where
    b: "ciclo_giorni R a tot 0 ds records g = Inr (records @ blk, g1)"
      "length blk = length ds" "\<forall>r\<in>set blk. P r" by blast
  from Cons.IH [of "records @ blk" g1] obtain out g' where
    o: "ciclo_appezzamenti R tot ds apps (records @ blk) g1 = Inr ((records @ blk) @ out, g')"
      "length out = length apps * length ds" "\<forall>r\<in>set out. P r" by blast
  from b o show ?case
    by (intro exI [of _ "blk @ out"] exI [of _ g']) auto
qed

lemma ciclo_appezzamenti_prefix:
  "ciclo_appezzamenti R tot ds apps pre g =
     map_sum id (\<lambda>(out, g'). (pre @ out, g')) (ciclo_appezzamenti R tot ds apps [] g)"
proof (induction apps arbitrary: pre g)
  case Nil
  then show ?case by simp
next
  case (Cons a apps)
  have c: "(0::nat) = 0 \<or> ([]::riga list) \<noteq> []" by simp
  have "\<exists>blk g1. ciclo_giorni R a tot 0 ds [] g = Inr ([] @ blk, g1) \<and>
           length blk = length ds \<and> (\<forall>r\<in>set blk. True)"
    by (rule ciclo_giorni_blocco) auto
  then obtain blk g1 where
    b: "ciclo_giorni R a tot 0 ds [] g = Inr (blk, g1)" by auto
  with ciclo_giorni_prefix [OF c, of R a tot ds pre g]
  have b': "ciclo_giorni R a tot 0 ds pre g = Inr (pre @ blk, g1)" by simp
  show ?case
    using Cons.IH [of "pre @ blk" g1] Cons.IH [of blk g1] b b'
    by (cases "ciclo_appezzamenti R tot ds apps [] g1") auto
qed

lemma date_range_empty: "date_range s e = [] \<longleftrightarrow> e < s"
  by (simp add: date_range_def)

lemma length_date_range: "length (date_range s e) = nat (e - s + 1)"
  by (simp add: date_range_def)

lemma giorni_totali_eq:
  assumes "s \<le> e"
  shows "last (date_range s e) - hd (date_range s e) + 1 = e - s + 1"
proof -
  from assms have "hd [s..e] = s" by (simp add: upto_rec1)
  moreover from assms have "last [s..e] = e" by (simp add: upto_rec2)
  ultimately show ?thesis by (simp add: date_range_def)
qed

lemma genera_dati_invalid:
  "e < s \<Longrightarrow> genera_dati R w s e plots seed csv nf = (Inl IndexError, w)"
  by (simp add: genera_dati_def date_range_empty)

lemma genera_dati_vuoto:
  assumes "s \<le> e"
  shows "genera_dati R w s e (Some []) seed csv nf = (Inl (KeyError ''data''), w)"
  using assms by (simp add: genera_dati_def date_range_empty sort_values_def)

lemma genera_dati_valid:
  assumes se: "s \<le> e"
    and ne: "apps \<noteq> []"
    and apps: "apps = (case plots of None \<Rightarrow> get_appezzamenti_default | Some l \<Rightarrow> l)"
    and P: "\<And>a i d recs g r g'. giorno R a (e - s + 1) i d recs g = Inr (r, g') \<Longrightarrow> P r"
  shows "\<exists>records g'.
           ciclo_appezzamenti R (e - s + 1) (date_range s e) apps []
             (default_rng R w seed) = Inr (records, g') \<and>
           length records = length apps * nat (e - s + 1) \<and>
           (\<forall>r\<in>set records. P r) \<and>
           genera_dati R w s e plots seed csv nf =
             (let df = map arrotonda
                         (sort_key (\<lambda>r. (data r, riga_id_appezzamento r)) records)
              in if csv then salva w nf df else (Inr df, w))"
proof -
  have "\<exists>out g'. ciclo_appezzamenti R (e - s + 1) (date_range s e) apps []
           (default_rng R w seed) = Inr ([] @ out, g') \<and>
           length out = length apps * length (date_range s e) \<and> (\<forall>r\<in>set out. P r)"
    by (rule ciclo_appezzamenti_blocco) (rule P)
  then obtain records g' where
    c: "ciclo_appezzamenti R (e - s + 1) (date_range s e) apps []
           (default_rng R w seed) = Inr (records, g')"
    and l: "length records = length apps * length (date_range s e)"
    and p: "\<forall>r\<in>set records. P r" by auto
  from l ne se have "records \<noteq> []" by (auto simp: length_date_range)
  with c l p se apps show ?thesis
    by (auto simp: genera_dati_def date_range_empty giorni_totali_eq sort_values_def
        length_date_range Let_def)
qed

text \<open>
  C3. With a start not after the end and a non-empty list of plots, the returned table
  has one row for each plot and each day from the start to the end, both included. The
  only other outcome is the error of a requested export that fails.
\<close>

theorem numero_righe:
  assumes "data_inizio \<le> data_fine"
    and "apps = (case appezzamenti of None \<Rightarrow> get_appezzamenti_default | Some l \<Rightarrow> l)"
    and "apps \<noteq> []"
  shows "(salva_csv \<and> (mkdir_fails w \<or> write_fails w (nome_csv w nome_file)) \<and>
          fst (genera_dati R w data_inizio data_fine appezzamenti random_state salva_csv
                 nome_file) = Inl OSError)
       \<or> (\<exists>df. fst (genera_dati R w data_inizio data_fine appezzamenti random_state
                       salva_csv nome_file) = Inr df \<and>
                length df = length apps * nat (data_fine - data_inizio + 1))"
proof -
  from genera_dati_valid [where P = "\<lambda>_. True", OF assms(1) assms(3) assms(2),
      of R w random_state salva_csv nome_file]
  obtain records g' where
    l: "length records = length apps * nat (data_fine - data_inizio + 1)"
    and g: "genera_dati R w data_inizio data_fine appezzamenti random_state salva_csv nome_file =
             (let df = map arrotonda
                         (sort_key (\<lambda>r. (data r, riga_id_appezzamento r)) records)
              in if salva_csv then salva w nome_file df else (Inr df, w))" by auto
  show ?thesis unfolding g using l by (auto simp: Let_def salva_def)
qed

theorem numero_righe_witness:
  "(738886::int) \<le> 738888 \<and>
   (\<exists>df. fst (genera_dati rng_esempio mondo_esempio 738886 738888 None (Some 42) False None)
           = Inr df \<and> length df = 9)"
  using numero_righe [where data_inizio = 738886 and data_fine = 738888
      and appezzamenti = None and apps = get_appezzamenti_default and salva_csv = False
      and R = rng_esempio and w = mondo_esempio and random_state = "Some 42"
      and nome_file = None]
  by (simp add: get_appezzamenti_default_def)

text \<open>
  C7. When the end is strictly before the start the call fails: the range of dates is
  empty and reading its last element raises \<^verbatim>\<open>IndexError\<close>. No table is returned and
  nothing is written.
\<close>

theorem intervallo_non_valido:
  "data_fine < data_inizio \<Longrightarrow>
   genera_dati R w data_inizio data_fine appezzamenti random_state salva_csv nome_file =
     (Inl IndexError, w)"
  by (rule genera_dati_invalid)

theorem intervallo_non_valido_witness:
  "(738886::int) < 738888 \<and>
   genera_dati rng_esempio mondo_esempio 738888 738886 None (Some 42) True None =
     (Inl IndexError, mondo_esempio)"
  using intervallo_non_valido [where data_inizio = 738888 and data_fine = 738886
      and R = rng_esempio and w = mondo_esempio and appezzamenti = None
      and random_state = "Some 42" and salva_csv = True and nome_file = None]
  by simp

text \<open>
  C8. With an explicitly empty list of plots the call fails and returns no table: on a
  valid range the table built from no rows has no column to sort by
  (\<^verbatim>\<open>KeyError\<close>), on an invalid one the range error comes first. An omitted list is
  the default list of three plots, and is no error.
\<close>

theorem lista_vuota:
  "(\<exists>err. genera_dati R w data_inizio data_fine (Some []) random_state salva_csv nome_file =
            (Inl err, w) \<and>
          (data_inizio \<le> data_fine \<longrightarrow> err = KeyError ''data'') \<and>
          (data_fine < data_inizio \<longrightarrow> err = IndexError)) \<and>
   genera_dati R w data_inizio data_fine None random_state salva_csv nome_file =
     genera_dati R w data_inizio data_fine (Some get_appezzamenti_default) random_state
       salva_csv nome_file \<and>
   (data_inizio \<le> data_fine \<longrightarrow>
      (\<exists>df. genera_dati R w data_inizio data_fine None random_state False nome_file =
              (Inr df, w) \<and>
            length df = 3 * nat (data_fine - data_inizio + 1)))"
proof (intro conjI)
  show "\<exists>err. genera_dati R w data_inizio data_fine (Some []) random_state salva_csv nome_file =
            (Inl err, w) \<and>
          (data_inizio \<le> data_fine \<longrightarrow> err = KeyError ''data'') \<and>
          (data_fine < data_inizio \<longrightarrow> err = IndexError)"
    using genera_dati_invalid [of data_fine data_inizio R w "Some []" random_state salva_csv nome_file]
      genera_dati_vuoto [of data_inizio data_fine R w random_state salva_csv nome_file]
    by (cases "data_inizio \<le> data_fine") auto
  show "genera_dati R w data_inizio data_fine None random_state salva_csv nome_file =
     genera_dati R w data_inizio data_fine (Some get_appezzamenti_default) random_state
       salva_csv nome_file"
    by (simp add: genera_dati_def)
  show "data_inizio \<le> data_fine \<longrightarrow>
      (\<exists>df. genera_dati R w data_inizio data_fine None random_state False nome_file =
              (Inr df, w) \<and>
            length df = 3 * nat (data_fine - data_inizio + 1))"
  proof
    assume se: "data_inizio \<le> data_fine"
    have a: "get_appezzamenti_default = (case (None :: Appezzamento list option) of
               None \<Rightarrow> get_appezzamenti_default | Some l \<Rightarrow> l)" by simp
    have n: "get_appezzamenti_default \<noteq> []" by (simp add: get_appezzamenti_default_def)
    from genera_dati_valid [where P = "\<lambda>_. True", OF se n a,
        of R w random_state False nome_file]
    show "\<exists>df. genera_dati R w data_inizio data_fine None random_state False nome_file =
              (Inr df, w) \<and>
            length df = 3 * nat (data_fine - data_inizio + 1)"
      by (auto simp: Let_def get_appezzamenti_default_def)
  qed
qed

theorem lista_vuota_witness:
  "(738886::int) \<le> 738888 \<and>
   genera_dati rng_esempio mondo_esempio 738886 738888 (Some []) (Some 42) False None =
     (Inl (KeyError ''data''), mondo_esempio) \<and>
   (\<exists>df. genera_dati rng_esempio mondo_esempio 738886 738888 None (Some 42) False None =
           (Inr df, mondo_esempio) \<and> length df = 9)"
proof -
  have le: "(738886::int) \<le> 738888" by simp
  note t = lista_vuota [where data_inizio = 738886 and data_fine = 738888
      and R = rng_esempio and w = mondo_esempio and random_state = "Some 42"
      and salva_csv = False and nome_file = None]
  from t le have 1:
    "genera_dati rng_esempio mondo_esempio 738886 738888 (Some []) (Some 42) False None =
       (Inl (KeyError ''data''), mondo_esempio)" by auto
  from t le have
    "\<exists>df. genera_dati rng_esempio mondo_esempio 738886 738888 None (Some 42) False None =
           (Inr df, mondo_esempio) \<and> length df = 3 * nat (738888 - 738886 + 1)" by blast
  then have 2:
    "\<exists>df. genera_dati rng_esempio mondo_esempio 738886 738888 None (Some 42) False None =
           (Inr df, mondo_esempio) \<and> length df = 9" by simp
  from le 1 2 show ?thesis by blast
qed

subsection \<open>Bounds and the margin\<close>

lemma round3_err: "\<bar>round3 x - x\<bar> \<le> 1 / 2000"
  using rint_err [of "x * 1000"] by (simp add: round3_def abs_le_iff field_simps)

lemma round3_diff: "\<bar>round3 (a - b) - (round3 a - round3 b)\<bar> \<le> 1 / 1000"
proof -
  define K where "K = rint ((a - b) * 1000) - rint (a * 1000) + rint (b * 1000)"
  define x where "x = real_of_int (rint ((a - b) * 1000)) - (a - b) * 1000"
  define y where "y = real_of_int (rint (a * 1000)) - a * 1000"
  define z where "z = real_of_int (rint (b * 1000)) - b * 1000"
  have "\<bar>x\<bar> \<le> 1 / 2" "\<bar>y\<bar> \<le> 1 / 2" "\<bar>z\<bar> \<le> 1 / 2"
    unfolding x_def y_def z_def by (rule rint_err)+
  moreover have "real_of_int K = x - y + z"
    by (simp add: K_def x_def y_def z_def algebra_simps)
  ultimately have "\<bar>real_of_int K\<bar> < 2" by linarith
  then have "\<bar>K\<bar> < 2" by linarith
  then have "\<bar>K\<bar> \<le> 1" by simp
  then have "\<bar>real_of_int K\<bar> \<le> 1" by linarith
  then have k: "\<bar>real_of_int K / 1000\<bar> \<le> 1 / 1000" by simp
  have eq: "round3 (a - b) - (round3 a - round3 b) = real_of_int K / 1000"
    by (simp add: round3_def K_def field_simps)
  from k show ?thesis by (simp only: eq)
qed

lemma sort_key_Nil: "sort_key f xs = [] \<longleftrightarrow> xs = []"
  by (metis length_sort length_0_conv)

lemma precipitazioni_nonneg: "0 \<le> fst (precipitazioni R g)"
  by (simp add: precipitazioni_def Let_def split: prod.splits)

lemma clip_range: "lo \<le> hi \<Longrightarrow> lo \<le> clip x lo hi \<and> clip x lo hi \<le> hi"
  by (simp add: clip_def)

lemma umidita_successiva_range:
  "10 \<le> fst (umidita_successiva R prev prec g) \<and> fst (umidita_successiva R prev prec g) \<le> 90"
  using clip_range [of 10 90]
  by (simp add: umidita_successiva_def Let_def split: prod.splits)

lemma nutrienti_successivi_ge:
  assumes "uniform_in_range R"
    and "nutrienti_successivi R u g = ((n, p, k), g')"
  shows "5 \<le> n \<and> 5 \<le> p \<and> 5 \<le> k"
proof -
  have u: "rng_uniform R lo hi x = (v, y) \<Longrightarrow> lo \<le> hi \<Longrightarrow> lo \<le> v" for lo hi x v y
    using assms(1) unfolding uniform_in_range_def by (metis fst_conv)
  from assms(2) show ?thesis
    unfolding nutrienti_successivi_def Let_def
    by (auto split: prod.splits if_splits dest: u [of 10 25] u [of 5 15] u [of 8 20])
qed

lemma suolo_limiti:
  assumes U: "uniform_in_range R"
    and s: "suolo R records i prec g = Inr ((um, n, p, k), g')"
  shows "10 \<le> um \<and> um \<le> 90 \<and> 5 \<le> n \<and> 5 \<le> p \<and> 5 \<le> k"
proof (cases "i = 0")
  case True
  have u: "rng_uniform R lo hi x = (v, y) \<Longrightarrow> lo \<le> hi \<Longrightarrow> lo \<le> v \<and> v \<le> hi" for lo hi x v y
    using U unfolding uniform_in_range_def by (metis fst_conv)
  from s True show ?thesis
    unfolding suolo_def Let_def
    by (auto split: prod.splits dest: u [of 30 60] u [of 40 80] u [of 20 50] u [of 30 70])
next
  case False
  with s have ne: "records \<noteq> []" by (auto simp: suolo_def split: if_splits)
  obtain um1 g1 where m: "umidita_successiva R (umidita_suolo_pct (last records)) prec g = (um1, g1)"
    by (cases "umidita_successiva R (umidita_suolo_pct (last records)) prec g")
  obtain n1 p1 k1 g2 where nn: "nutrienti_successivi R (last records) g1 = ((n1, p1, k1), g2)"
    by (metis prod.exhaust)
  from s False ne m nn have eq: "um = um1" "n = n1" "p = p1" "k = k1"
    by (simp_all add: suolo_def)
  from umidita_successiva_range [of R "umidita_suolo_pct (last records)" prec g] m
  have "10 \<le> um1 \<and> um1 \<le> 90" by simp
  with nutrienti_successivi_ge [OF U nn] eq show ?thesis by simp
qed

lemma crescita_ge: "0 \<le> fst (crescita R col progress g)"
  using clip_range [of 0 1] by (simp add: crescita_def Let_def split: prod.splits)

lemma crescita_le: "fst (crescita R col progress g) \<le> 1"
  using clip_range [of 0 1] by (simp add: crescita_def Let_def split: prod.splits)

lemma resa_nonneg: "0 \<le> fst (fst (resa R stadio um n p k area g))"
  unfolding resa_def Let_def split_beta by (simp only: fst_conv max.cobounded1)

lemma economia_costo_nonneg: "0 \<le> fst (fst (economia R col kg g))"
  by (simp add: economia_def Let_def split_beta)

lemma economia_ricavi_nonneg: "0 \<le> fst (snd (fst (economia R col kg g)))"
  by (simp add: economia_def Let_def split_beta)

lemma giorno_limiti:
  assumes U: "uniform_in_range R"
    and g: "giorno R a tot i d records g = Inr (r, g')"
  shows "entro_limiti r"
proof -
  let ?prec = "fst (precipitazioni R (snd (temperatura R d g)))"
  let ?g2 = "snd (precipitazioni R (snd (temperatura R d g)))"
  from g obtain um n p k g3 where
    s: "suolo R records i ?prec ?g2 = Inr ((um, n, p, k), g3)"
    by (cases "suolo R records i ?prec ?g2") (auto simp: giorno_Inl)
  from g show ?thesis
    unfolding giorno_Inr [OF s] Let_def
    using suolo_limiti [OF U s]
    by (auto simp: entro_limiti_def precipitazioni_nonneg crescita_ge crescita_le
        resa_nonneg economia_costo_nonneg economia_ricavi_nonneg)
qed

lemma arrotonda_limiti:
  assumes "entro_limiti r"
  shows "entro_limiti (arrotonda r)"
  using assms round3_ge [of 10 "umidita_suolo_pct r"] round3_le [of "umidita_suolo_pct r" 90]
    round3_ge [of 0 "precipitazioni_mm r"] round3_ge [of 5 "nutrienti_n r"]
    round3_ge [of 5 "nutrienti_p r"] round3_ge [of 5 "nutrienti_k r"]
    round3_ge [of 0 "stadio_crescita r"] round3_le [of "stadio_crescita r" 1]
    round3_ge [of 0 "resa_kg_ha r"] round3_ge [of 0 "costo_totale_eur r"]
    round3_ge [of 0 "ricavi_totali_eur r"]
  by (simp add: entro_limiti_def arrotonda_def)

lemma salva_Inr: "salva w nf df = (Inr df', w') \<Longrightarrow> df' = df"
  by (auto simp: salva_def Let_def split: if_splits)

lemma genera_dati_Inr:
  assumes r: "fst (genera_dati R w s e plots seed csv nf) = Inr df"
    and P: "\<And>a i d recs g r g'. giorno R a (e - s + 1) i d recs g = Inr (r, g') \<Longrightarrow> P r"
  shows "\<forall>r\<in>set df. \<exists>r0. r = arrotonda r0 \<and> P r0"
proof -
  define apps where "apps = (case plots of None \<Rightarrow> get_appezzamenti_default | Some l \<Rightarrow> l)"
  from r have se: "s \<le> e"
    using genera_dati_invalid [where s = s and e = e and R = R and w = w and plots = plots
        and seed = seed and csv = csv and nf = nf] by (cases "s \<le> e") auto
  have ne: "apps \<noteq> []"
  proof
    assume "apps = []"
    with r se show False
      by (auto simp: genera_dati_def apps_def date_range_empty sort_values_def)
  qed
  have "\<exists>records g'.
           ciclo_appezzamenti R (e - s + 1) (date_range s e) apps []
             (default_rng R w seed) = Inr (records, g') \<and>
           length records = length apps * nat (e - s + 1) \<and>
           (\<forall>r\<in>set records. P r) \<and>
           genera_dati R w s e plots seed csv nf =
             (let df = map arrotonda
                         (sort_key (\<lambda>r. (data r, riga_id_appezzamento r)) records)
              in if csv then salva w nf df else (Inr df, w))"
    using se ne apps_def by (rule genera_dati_valid) (rule P)
  then obtain records g' where
    p: "\<forall>r\<in>set records. P r"
    and g: "genera_dati R w s e plots seed csv nf =
             (let df = map arrotonda
                         (sort_key (\<lambda>r. (data r, riga_id_appezzamento r)) records)
              in if csv then salva w nf df else (Inr df, w))" by blast
  from r g have "df = map arrotonda (sort_key (\<lambda>r. (data r, riga_id_appezzamento r)) records)"
    by (cases "salva w nf (map arrotonda (sort_key (\<lambda>r. (data r, riga_id_appezzamento r)) records))")
      (auto simp: Let_def split: if_splits dest: salva_Inr)
  with p show ?thesis by auto
qed

lemma genera_dati_ritorna:
  assumes "s \<le> e"
    and "(case plots of None \<Rightarrow> get_appezzamenti_default | Some l \<Rightarrow> l) \<noteq> []"
  shows "\<exists>df. genera_dati R w s e plots seed False nf = (Inr df, w) \<and> df \<noteq> []"
proof -
  define apps where "apps = (case plots of None \<Rightarrow> get_appezzamenti_default | Some l \<Rightarrow> l)"
  from assms(2) have ne: "apps \<noteq> []" by (simp add: apps_def)
  have "\<exists>records g'.
           ciclo_appezzamenti R (e - s + 1) (date_range s e) apps []
             (default_rng R w seed) = Inr (records, g') \<and>
           length records = length apps * nat (e - s + 1) \<and>
           (\<forall>r\<in>set records. True) \<and>
           genera_dati R w s e plots seed False nf =
             (let df = map arrotonda
                         (sort_key (\<lambda>r. (data r, riga_id_appezzamento r)) records)
              in if False then salva w nf df else (Inr df, w))"
    using assms(1) ne apps_def by (rule genera_dati_valid) simp
  then obtain records where
    l: "length records = length apps * nat (e - s + 1)"
    and g: "genera_dati R w s e plots seed False nf =
             (Inr (map arrotonda
                         (sort_key (\<lambda>r. (data r, riga_id_appezzamento r)) records)), w)"
    by (auto simp: Let_def)
  from l ne assms(1) have "records \<noteq> []" by auto
  with g show ?thesis by (simp add: sort_key_Nil)
qed

text \<open>
  C2. When the generator's uniform draws lie between their bounds, every row of a
  returned table has soil moisture in \<open>[10, 90]\<close>, rain and yield not below 0, each
  nutrient not below 5, growth stage in \<open>[0, 1]\<close>, and cost and revenue not below 0;
  the rows are the rounded ones.
\<close>

theorem limiti:
  assumes "uniform_in_range R"
    and "fst (genera_dati R w data_inizio data_fine appezzamenti random_state salva_csv
                nome_file) = Inr df"
  shows "\<forall>r\<in>set df. entro_limiti r"
proof -
  have "\<forall>r\<in>set df. \<exists>r0. r = arrotonda r0 \<and> entro_limiti r0"
    using assms(2) by (rule genera_dati_Inr) (rule giorno_limiti [OF assms(1)])
  then show ?thesis by (auto intro: arrotonda_limiti)
qed

lemma uniform_in_range_esempio: "uniform_in_range rng_esempio"
proof -
  have "lo \<le> lo + (hi - lo) * (real (n mod 10) / 10) \<and>
        lo + (hi - lo) * (real (n mod 10) / 10) \<le> hi" if "lo \<le> hi" for lo hi :: real and n :: nat
  proof -
    have "real (n mod 10) \<le> 10" by simp
    then have 1: "real (n mod 10) / 10 \<le> 1" by simp
    have 0: "0 \<le> real (n mod 10) / 10" by simp
    from that have d: "0 \<le> hi - lo" by simp
    from mult_left_le [OF 1 d] mult_nonneg_nonneg [OF d 0] show ?thesis by simp
  qed
  then show ?thesis by (simp add: uniform_in_range_def rng_esempio_def)
qed

theorem limiti_witness:
  "uniform_in_range rng_esempio \<and>
   (\<exists>df. fst (genera_dati rng_esempio mondo_esempio 738886 738888 None (Some 42) False None)
           = Inr df \<and> df \<noteq> [] \<and> (\<forall>r\<in>set df. entro_limiti r))"
proof -
  have "\<exists>df. genera_dati rng_esempio mondo_esempio 738886 738888 None (Some 42) False None
          = (Inr df, mondo_esempio) \<and> df \<noteq> []"
    by (rule genera_dati_ritorna) (simp_all add: get_appezzamenti_default_def)
  then obtain df where
    d: "fst (genera_dati rng_esempio mondo_esempio 738886 738888 None (Some 42) False None)
          = Inr df" and ne: "df \<noteq> []" by auto
  from limiti [OF uniform_in_range_esempio d] d ne uniform_in_range_esempio
  show ?thesis by blast
qed

text \<open>
  C4. Every row the loop body produces has its margin equal to revenue minus cost, and
  in a returned table, where the three columns are rounded one by one, the margin is
  within 0.001 of the difference of the other two.
\<close>

theorem margine:
  "(\<forall>appez tot i d records g r g'.
      giorno R appez tot i d records g = Inr (r, g') \<longrightarrow>
      margine_eur r = ricavi_totali_eur r - costo_totale_eur r) \<and>
   (\<forall>df. fst (genera_dati R w data_inizio data_fine appezzamenti random_state salva_csv
                 nome_file) = Inr df \<longrightarrow>
      (\<forall>r\<in>set df. \<bar>margine_eur r - (ricavi_totali_eur r - costo_totale_eur r)\<bar> \<le> 0.001))"
proof (intro conjI allI impI)
  fix appez tot i d records g r g'
  assume "giorno R appez tot i d records g = Inr (r, (g' :: 'a))"
  then show "margine_eur r = ricavi_totali_eur r - costo_totale_eur r"
    by (rule giorno_margine)
next
  fix df
  assume "fst (genera_dati R w data_inizio data_fine appezzamenti random_state salva_csv
                 nome_file) = Inr df"
  then have "\<forall>r\<in>set df. \<exists>r0. r = arrotonda r0 \<and>
               margine_eur r0 = ricavi_totali_eur r0 - costo_totale_eur r0"
    by (rule genera_dati_Inr) (rule giorno_margine)
  then show "\<forall>r\<in>set df. \<bar>margine_eur r - (ricavi_totali_eur r - costo_totale_eur r)\<bar> \<le> 0.001"
    using round3_diff by (auto simp: arrotonda_def)
qed

theorem margine_witness:
  "\<exists>df. fst (genera_dati rng_esempio mondo_esempio 738886 738888 None (Some 42) False None)
          = Inr df \<and> df \<noteq> [] \<and>
        (\<forall>r\<in>set df. \<bar>margine_eur r - (ricavi_totali_eur r - costo_totale_eur r)\<bar> \<le> 0.001)"
proof -
  have "\<exists>df. genera_dati rng_esempio mondo_esempio 738886 738888 None (Some 42) False None
          = (Inr df, mondo_esempio) \<and> df \<noteq> []"
    by (rule genera_dati_ritorna) (simp_all add: get_appezzamenti_default_def)
  then obtain df where
    d: "fst (genera_dati rng_esempio mondo_esempio 738886 738888 None (Some 42) False None)
          = Inr df" and ne: "df \<noteq> []" by auto
  from margine [where R = rng_esempio and w = mondo_esempio and data_inizio = 738886
      and data_fine = 738888 and appezzamenti = None and random_state = "Some 42"
      and salva_csv = False and nome_file = None]
  have "\<forall>r\<in>set df. \<bar>margine_eur r - (ricavi_totali_eur r - costo_totale_eur r)\<bar> \<le> 0.001"
    using d by simp
  with d ne show ?thesis by auto
qed

subsection \<open>The yield rule and the rain gate\<close>

lemma resa_eq:
  "resa R stadio um n p k area g =
     ((spec_yield_kg_ha stadio um n p k (fst (rng_normal R 0 3 g)),
       spec_yield_kg_ha stadio um n p k (fst (rng_normal R 0 3 g)) * area),
      snd (rng_normal R 0 3 g))"
  unfolding resa_def spec_yield_kg_ha_def spec_moisture_penalty_def spec_nutrient_penalty_def
    Let_def split_beta
  by (simp only: diff_diff_eq)

text \<open>
  C5. The yield of a plot on a day is the specification's rule: the potential is the
  growth stage times 80, the moisture and nutrient penalties are the two tables, the
  factor is their complement floored at 0.1, the yield per hectare is the potential times
  the factor plus the draw of \<^verbatim>\<open>normal(0, 3)\<close> taken right after the growth draw,
  floored at 0, and the total is that times the area of the plot.
\<close>

theorem resa_formula:
  "resa R stadio um n p k area g =
     ((spec_yield_kg_ha stadio um n p k (fst (rng_normal R 0 3 g)),
       spec_yield_kg_ha stadio um n p k (fst (rng_normal R 0 3 g)) * area),
      snd (rng_normal R 0 3 g)) \<and>
   (\<forall>appez tot i d records g0 r g'.
      giorno R appez tot i d records g0 = Inr (r, g') \<longrightarrow>
      (\<exists>g3. suolo R records i (fst (precipitazioni R (snd (temperatura R d g0))))
               (snd (precipitazioni R (snd (temperatura R d g0)))) = Inr (stato_suolo r, g3) \<and>
            (let c = crescita R (coltura appez) (real i / of_int (max (tot - 1) 1)) g3
             in stadio_crescita r = fst c \<and>
                resa_kg_ha r =
                  spec_yield_kg_ha (stadio_crescita r) (umidita_suolo_pct r) (nutrienti_n r)
                    (nutrienti_p r) (nutrienti_k r) (fst (rng_normal R 0 3 (snd c))) \<and>
                resa_totale_kg r = resa_kg_ha r * superficie_ha appez)))"
proof (intro conjI allI impI)
  show "resa R stadio um n p k area g =
     ((spec_yield_kg_ha stadio um n p k (fst (rng_normal R 0 3 g)),
       spec_yield_kg_ha stadio um n p k (fst (rng_normal R 0 3 g)) * area),
      snd (rng_normal R 0 3 g))"
    by (rule resa_eq)
next
  fix appez tot i d records g0 r g'
  let ?prec = "fst (precipitazioni R (snd (temperatura R d g0)))"
  let ?g2 = "snd (precipitazioni R (snd (temperatura R d g0)))"
  assume g: "giorno R appez tot i d records g0 = Inr (r, (g' :: 'a))"
  then obtain um n p k g3 where
    s: "suolo R records i ?prec ?g2 = Inr ((um, n, p, k), g3)"
    by (cases "suolo R records i ?prec ?g2") (auto simp: giorno_Inl)
  from g have r: "stato_suolo r = (um, n, p, k)"
    unfolding giorno_Inr [OF s] Let_def by (auto simp: stato_suolo_def)
  from g have
    "stadio_crescita r = fst (crescita R (coltura appez) (real i / of_int (max (tot - 1) 1)) g3) \<and>
     resa_kg_ha r =
       spec_yield_kg_ha (stadio_crescita r) (umidita_suolo_pct r) (nutrienti_n r)
         (nutrienti_p r) (nutrienti_k r)
         (fst (rng_normal R 0 3
            (snd (crescita R (coltura appez) (real i / of_int (max (tot - 1) 1)) g3)))) \<and>
     resa_totale_kg r = resa_kg_ha r * superficie_ha appez"
    unfolding giorno_Inr [OF s] Let_def by (auto simp: resa_eq)
  with s r show "\<exists>g3. suolo R records i ?prec ?g2 = Inr (stato_suolo r, g3) \<and>
            (let c = crescita R (coltura appez) (real i / of_int (max (tot - 1) 1)) g3
             in stadio_crescita r = fst c \<and>
                resa_kg_ha r =
                  spec_yield_kg_ha (stadio_crescita r) (umidita_suolo_pct r) (nutrienti_n r)
                    (nutrienti_p r) (nutrienti_k r) (fst (rng_normal R 0 3 (snd c))) \<and>
                resa_totale_kg r = resa_kg_ha r * superficie_ha appez)"
    by (auto simp: Let_def)
qed

theorem resa_formula_witness:
  "\<exists>r g'. giorno rng_esempio (hd get_appezzamenti_default) 3 0 738886 [] 42 = Inr (r, g') \<and>
     resa_kg_ha r =
       spec_yield_kg_ha (stadio_crescita r) (umidita_suolo_pct r) (nutrienti_n r)
         (nutrienti_p r) (nutrienti_k r) (- 9 / 2) \<and>
     resa_totale_kg r = resa_kg_ha r * 12.5"
proof -
  let ?a = "hd get_appezzamenti_default"
  have "(0::nat) = 0 \<or> ([] :: riga list) \<noteq> []" by simp
  from giorno_ok [OF this, of rng_esempio ?a 3 738886 42] obtain r g' where
    g: "giorno rng_esempio ?a 3 0 738886 [] 42 = Inr (r, g')" by blast
  have s: "suolo rng_esempio [] 0 x 44 = Inr (y, g3) \<Longrightarrow> g3 = 48" for x y g3
    by (auto simp: suolo_def rng_esempio_def Let_def)
  have p: "snd (precipitazioni rng_esempio (snd (temperatura rng_esempio 738886 42))) = 44"
    by (simp add: precipitazioni_def temperatura_def rng_esempio_def Let_def split_beta)
  have c: "fst (rng_normal rng_esempio 0 3 (snd (crescita rng_esempio col pr 48))) = - 9 / 2"
    for col pr
    by (simp add: snd_crescita) (simp add: rng_esempio_def)
  from resa_formula [where R = rng_esempio, THEN conjunct2, rule_format, OF g]
  obtain g3 where
    "suolo rng_esempio [] 0
       (fst (precipitazioni rng_esempio (snd (temperatura rng_esempio 738886 42)))) 44
       = Inr (stato_suolo r, g3)"
    and f: "resa_kg_ha r =
         spec_yield_kg_ha (stadio_crescita r) (umidita_suolo_pct r) (nutrienti_n r)
           (nutrienti_p r) (nutrienti_k r)
           (fst (rng_normal rng_esempio 0 3
              (snd (crescita rng_esempio (coltura ?a) (real 0 / of_int (max (3 - 1) 1)) g3))))"
      "resa_totale_kg r = resa_kg_ha r * superficie_ha ?a"
    unfolding p by (auto simp: Let_def)
  from this(1) have "g3 = 48" by (rule s)
  with f c g show ?thesis by (auto simp: get_appezzamenti_default_def)
qed

text \<open>
  C10. When the rain gate fires and the draw of \<^verbatim>\<open>normal(10, 8)\<close> is not positive, the
  rain is exactly 0, the soil moisture of a later day is the previous one less the decay
  draw, clipped, and the nutrients are drawn from the state that follows the decay draw:
  the recharge draw is taken exactly when the rain is positive.
\<close>

theorem pioggia_senza_ricarica:
  assumes gate: "fst (rng_random R g1) < 0.3"
    and nonpos: "fst (rng_normal R 10 8 (snd (rng_random R g1))) \<le> 0"
    and g2: "g2 = snd (rng_normal R 10 8 (snd (rng_random R g1)))"
  shows "precipitazioni R g1 = (0, g2) \<and>
    (\<forall>prev. umidita_successiva R prev (fst (precipitazioni R g1)) g2 =
       (clip (prev - fst (rng_uniform R 0.1 0.8 g2)) 10 90, snd (rng_uniform R 0.1 0.8 g2))) \<and>
    (\<forall>prev prec g. umidita_successiva R prev prec g =
       (if 0 < prec
        then (clip (prev + (- fst (rng_uniform R 0.1 0.8 g) +
                      min 20 (prec * fst (rng_uniform R 0.3 0.6 (snd (rng_uniform R 0.1 0.8 g))))))
                10 90,
              snd (rng_uniform R 0.3 0.6 (snd (rng_uniform R 0.1 0.8 g))))
        else (clip (prev - fst (rng_uniform R 0.1 0.8 g)) 10 90,
              snd (rng_uniform R 0.1 0.8 g)))) \<and>
    (\<forall>appez tot i d records g0 r g'.
       0 < i \<and> g1 = snd (temperatura R d g0) \<and>
       giorno R appez tot i d records g0 = Inr (r, g') \<longrightarrow>
       precipitazioni_mm r = 0 \<and>
       umidita_suolo_pct r =
         clip (umidita_suolo_pct (last records) - fst (rng_uniform R 0.1 0.8 g2)) 10 90 \<and>
       (nutrienti_n r, nutrienti_p r, nutrienti_k r) =
         fst (nutrienti_successivi R (last records) (snd (rng_uniform R 0.1 0.8 g2))))"
proof (intro conjI allI impI)
  show p: "precipitazioni R g1 = (0, g2)"
    using gate nonpos g2 by (simp add: precipitazioni_def Let_def split_beta max_def)
  show u: "umidita_successiva R prev prec g =
       (if 0 < prec
        then (clip (prev + (- fst (rng_uniform R 0.1 0.8 g) +
                      min 20 (prec * fst (rng_uniform R 0.3 0.6 (snd (rng_uniform R 0.1 0.8 g))))))
                10 90,
              snd (rng_uniform R 0.3 0.6 (snd (rng_uniform R 0.1 0.8 g))))
        else (clip (prev - fst (rng_uniform R 0.1 0.8 g)) 10 90,
              snd (rng_uniform R 0.1 0.8 g)))" for prev prec g
    by (simp add: umidita_successiva_def Let_def split_beta)
  show "umidita_successiva R prev (fst (precipitazioni R g1)) g2 =
       (clip (prev - fst (rng_uniform R 0.1 0.8 g2)) 10 90, snd (rng_uniform R 0.1 0.8 g2))"
    for prev
    by (simp add: u p)
  fix appez tot i d records g0 r g'
  assume a: "0 < i \<and> g1 = snd (temperatura R d g0) \<and>
       giorno R appez tot i d records g0 = Inr (r, (g' :: 'a))"
  then have i: "i \<noteq> 0" and g1: "snd (temperatura R d g0) = g1"
    and g: "giorno R appez tot i d records g0 = Inr (r, g')" by auto
  from g obtain um n pp k g3 where
    s: "suolo R records i (fst (precipitazioni R (snd (temperatura R d g0))))
          (snd (precipitazioni R (snd (temperatura R d g0)))) = Inr ((um, n, pp, k), g3)"
    by (cases "suolo R records i (fst (precipitazioni R (snd (temperatura R d g0))))
          (snd (precipitazioni R (snd (temperatura R d g0))))") (auto simp: giorno_Inl)
  from g have r: "precipitazioni_mm r = 0" "umidita_suolo_pct r = um"
    "nutrienti_n r = n" "nutrienti_p r = pp" "nutrienti_k r = k"
    unfolding giorno_Inr [OF s] Let_def by (auto simp: g1 p)
  from s i have ne: "records \<noteq> []" by (auto simp: suolo_def g1 p split: if_splits)
  from s i ne have
    "um = clip (umidita_suolo_pct (last records) - fst (rng_uniform R 0.1 0.8 g2)) 10 90"
    "(n, pp, k) = fst (nutrienti_successivi R (last records) (snd (rng_uniform R 0.1 0.8 g2)))"
    by (auto simp: suolo_def g1 p u Let_def split_beta)
  with r show "precipitazioni_mm r = 0"
    "umidita_suolo_pct r =
         clip (umidita_suolo_pct (last records) - fst (rng_uniform R 0.1 0.8 g2)) 10 90"
    "(nutrienti_n r, nutrienti_p r, nutrienti_k r) =
         fst (nutrienti_successivi R (last records) (snd (rng_uniform R 0.1 0.8 g2)))"
    by simp_all
qed

theorem pioggia_senza_ricarica_witness:
  "fst (rng_random rng_esempio 20) < 0.3 \<and>
   fst (rng_normal rng_esempio 10 8 (snd (rng_random rng_esempio 20))) \<le> 0 \<and>
   precipitazioni rng_esempio 20 = (0, 22) \<and>
   umidita_successiva rng_esempio 50 (fst (precipitazioni rng_esempio 20)) 22 = (49.76, 23)"
proof -
  have 1: "fst (rng_random rng_esempio 20) < 0.3" by (simp add: rng_esempio_def)
  have 2: "fst (rng_normal rng_esempio 10 8 (snd (rng_random rng_esempio 20))) \<le> 0"
    by (simp add: rng_esempio_def)
  have 3: "(22::nat) = snd (rng_normal rng_esempio 10 8 (snd (rng_random rng_esempio 20)))"
    by (simp add: rng_esempio_def)
  have 4: "(clip (50 - fst (rng_uniform rng_esempio 0.1 0.8 22)) 10 90,
            snd (rng_uniform rng_esempio 0.1 0.8 22)) = (49.76, 23)"
    by (simp add: rng_esempio_def clip_def)
  from pioggia_senza_ricarica [OF 1 2 3] 1 2 4 show ?thesis by simp
qed

subsection \<open>Export and reproducibility\<close>

lemma fst_salva:
  "fst (salva w nf df) =
     (if mkdir_fails w \<or> write_fails w (nome_csv w nf) then Inl OSError else Inr df)"
  by (simp add: salva_def Let_def)

lemma salva_fallisce:
  "mkdir_fails w \<or> write_fails w (nome_csv w nf) \<Longrightarrow> salva w nf df = (Inl OSError, w)"
  by (auto simp: salva_def Let_def)

lemma genera_dati_export_fallito:
  assumes f: "mkdir_fails w \<or> write_fails w (nome_csv w nf)"
    and se: "s \<le> e"
    and ne: "(case plots of None \<Rightarrow> get_appezzamenti_default | Some l \<Rightarrow> l) \<noteq> []"
  shows "genera_dati R w s e plots seed True nf = (Inl OSError, w)"
proof -
  define apps where "apps = (case plots of None \<Rightarrow> get_appezzamenti_default | Some l \<Rightarrow> l)"
  from ne have ne': "apps \<noteq> []" by (simp add: apps_def)
  have "\<exists>records g'.
           ciclo_appezzamenti R (e - s + 1) (date_range s e) apps []
             (default_rng R w seed) = Inr (records, g') \<and>
           length records = length apps * nat (e - s + 1) \<and>
           (\<forall>r\<in>set records. True) \<and>
           genera_dati R w s e plots seed True nf =
             (let df = map arrotonda
                         (sort_key (\<lambda>r. (data r, riga_id_appezzamento r)) records)
              in if True then salva w nf df else (Inr df, w))"
    using se ne' apps_def by (rule genera_dati_valid) simp
  then show ?thesis using salva_fallisce [OF f] by (auto simp: Let_def)
qed

text \<open>
  C9, as the code has it. When the export is requested and creating the directory or
  writing the file fails, on a valid range and a non-empty list of plots, the call ends
  with \<^verbatim>\<open>OSError\<close> and returns no table; the world is left as it was. The table
  had been computed in full before the export: the same call without the export returns it.
\<close>

theorem esportazione_fallita:
  assumes "mkdir_fails w \<or> write_fails w (nome_csv w nome_file)"
    and "data_inizio \<le> data_fine"
    and "(case appezzamenti of None \<Rightarrow> get_appezzamenti_default | Some l \<Rightarrow> l) \<noteq> []"
  shows "genera_dati R w data_inizio data_fine appezzamenti random_state True nome_file =
           (Inl OSError, w) \<and>
         (\<exists>df. genera_dati R w data_inizio data_fine appezzamenti random_state False nome_file =
                 (Inr df, w) \<and> df \<noteq> [])"
  using genera_dati_export_fallito [OF assms] genera_dati_ritorna [OF assms(2,3)] by blast

theorem esportazione_fallita_witness:
  "write_fails (mondo_esempio\<lparr>write_fails := \<lambda>_. True\<rparr>)
     (nome_csv (mondo_esempio\<lparr>write_fails := \<lambda>_. True\<rparr>) (Some ''dati.csv'')) \<and>
   genera_dati rng_esempio (mondo_esempio\<lparr>write_fails := \<lambda>_. True\<rparr>) 738886 738888 None
     (Some 42) True (Some ''dati.csv'') =
       (Inl OSError, mondo_esempio\<lparr>write_fails := \<lambda>_. True\<rparr>) \<and>
   (\<exists>df. genera_dati rng_esempio (mondo_esempio\<lparr>write_fails := \<lambda>_. True\<rparr>) 738886 738888
           None (Some 42) False (Some ''dati.csv'') =
             (Inr df, mondo_esempio\<lparr>write_fails := \<lambda>_. True\<rparr>) \<and> df \<noteq> [])"
proof -
  let ?w = "mondo_esempio\<lparr>write_fails := \<lambda>_. True\<rparr>"
  have 1: "mkdir_fails ?w \<or> write_fails ?w (nome_csv ?w (Some ''dati.csv''))" by simp
  have 2: "(738886::int) \<le> 738888" by simp
  have 3: "(case (None :: Appezzamento list option) of
              None \<Rightarrow> get_appezzamenti_default | Some l \<Rightarrow> l) \<noteq> []"
    by (simp add: get_appezzamenti_default_def)
  from esportazione_fallita [OF 1 2 3, of rng_esempio "Some 42"] show ?thesis by simp
qed

text \<open>
  C9, as stated, fails: with a directory that cannot be created the caller of the default
  three-day run gets the error and no table.
\<close>

theorem esportazione_fallita_counterexample:
  "mkdir_fails mondo_guasto \<and>
   fst (genera_dati rng_esempio mondo_guasto 738886 738888 None (Some 42) True None) =
     Inl OSError"
proof -
  have 1: "mkdir_fails mondo_guasto" by (simp add: mondo_guasto_def)
  then have "mkdir_fails mondo_guasto \<or> write_fails mondo_guasto (nome_csv mondo_guasto None)"
    by simp
  then have "genera_dati rng_esempio mondo_guasto 738886 738888 None (Some 42) True None =
               (Inl OSError, mondo_guasto)"
    by (rule genera_dati_export_fallito) (simp_all add: get_appezzamenti_default_def)
  with 1 show ?thesis by simp
qed

lemma genera_dati_seeded:
  "fst (genera_dati R w s e plots (Some seed) False nf) =
   fst (genera_dati R w' s e plots (Some seed) False nf')"
  by (simp add: genera_dati_def default_rng_def Let_def split: sum.splits prod.splits)

lemma genera_dati_fst:
  "fst (genera_dati R w s e plots seed csv nf) =
     (case fst (genera_dati R w s e plots seed False nf) of
        Inl err \<Rightarrow> Inl err
      | Inr df \<Rightarrow>
          if csv \<and> (mkdir_fails w \<or> write_fails w (nome_csv w nf)) then Inl OSError
          else Inr df)"
  by (simp add: genera_dati_def Let_def fst_salva split: sum.splits prod.splits)

text \<open>
  C1. With a given seed the returned table depends on the dates, the plots and the seed
  only: two calls that agree on them return the same rounded table, whatever the clock,
  the entropy source and the file system are, and whether or not an export is requested.
\<close>

theorem determinismo:
  "fst (genera_dati R w1 data_inizio data_fine appezzamenti (Some seed) False nf1) =
   fst (genera_dati R w2 data_inizio data_fine appezzamenti (Some seed) False nf2) \<and>
   (\<forall>df1 df2.
      fst (genera_dati R w1 data_inizio data_fine appezzamenti (Some seed) csv1 nf1) = Inr df1 \<and>
      fst (genera_dati R w2 data_inizio data_fine appezzamenti (Some seed) csv2 nf2) = Inr df2
      \<longrightarrow> df1 = df2)"
proof (intro conjI allI impI)
  show eq: "fst (genera_dati R w1 data_inizio data_fine appezzamenti (Some seed) False nf1) =
   fst (genera_dati R w2 data_inizio data_fine appezzamenti (Some seed) False nf2)"
    by (rule genera_dati_seeded)
  fix df1 df2
  assume a: "fst (genera_dati R w1 data_inizio data_fine appezzamenti (Some seed) csv1 nf1)
        = Inr df1 \<and>
      fst (genera_dati R w2 data_inizio data_fine appezzamenti (Some seed) csv2 nf2) = Inr df2"
  from a have "fst (genera_dati R w1 data_inizio data_fine appezzamenti (Some seed) False nf1)
      = Inr df1"
    by (subst (asm) genera_dati_fst) (auto split: sum.splits if_splits)
  moreover from a have
    "fst (genera_dati R w2 data_inizio data_fine appezzamenti (Some seed) False nf2) = Inr df2"
    by (subst (asm) (2) genera_dati_fst) (auto split: sum.splits if_splits)
  ultimately show "df1 = df2" using eq by simp
qed

theorem determinismo_witness:
  "\<exists>df. fst (genera_dati rng_esempio mondo_esempio 738886 738888 None (Some 42) True None)
          = Inr df \<and>
        fst (genera_dati rng_esempio mondo_guasto 738886 738888 None (Some 42) False
               (Some ''dati.csv'')) = Inr df \<and>
        df \<noteq> []"
proof -
  have "\<exists>df. genera_dati rng_esempio mondo_esempio 738886 738888 None (Some 42) False None
          = (Inr df, mondo_esempio) \<and> df \<noteq> []"
    by (rule genera_dati_ritorna) (simp_all add: get_appezzamenti_default_def)
  then obtain df1 where
    "fst (genera_dati rng_esempio mondo_esempio 738886 738888 None (Some 42) False None)
          = Inr df1" and ne: "df1 \<noteq> []" by auto
  then have d1:
    "fst (genera_dati rng_esempio mondo_esempio 738886 738888 None (Some 42) True None)
          = Inr df1"
    by (subst genera_dati_fst) (simp add: mondo_esempio_def)
  have "\<exists>df. genera_dati rng_esempio mondo_guasto 738886 738888 None (Some 42) False
          (Some ''dati.csv'') = (Inr df, mondo_guasto) \<and> df \<noteq> []"
    by (rule genera_dati_ritorna) (simp_all add: get_appezzamenti_default_def)
  then obtain df2 where d2:
    "fst (genera_dati rng_esempio mondo_guasto 738886 738888 None (Some 42) False
          (Some ''dati.csv'')) = Inr df2" by auto
  from determinismo [where R = rng_esempio and ?w1.0 = mondo_esempio and ?w2.0 = mondo_guasto
      and data_inizio = 738886 and data_fine = 738888 and appezzamenti = None and seed = 42
      and ?csv1.0 = True and ?csv2.0 = False and ?nf1.0 = None
      and ?nf2.0 = "Some ''dati.csv''"] d1 d2
  have "df1 = df2" by blast
  with d1 d2 ne show ?thesis by blast
qed

subsection \<open>Plots do not influence each other\<close>

lemma ciclo_appezzamenti_sostituzione:
  "\<exists>B1 blk blk' B3 gf.
     ciclo_appezzamenti R tot ds (xs @ a # ys) [] g = Inr (B1 @ blk @ B3, gf) \<and>
     ciclo_appezzamenti R tot ds (xs @ a' # ys) [] g = Inr (B1 @ blk' @ B3, gf) \<and>
     length blk = length blk' \<and>
     (\<forall>r\<in>set blk. riga_id_appezzamento r = id_appezzamento a) \<and>
     (\<forall>r\<in>set blk'. riga_id_appezzamento r = id_appezzamento a')"
proof -
  have "\<exists>out g'. ciclo_appezzamenti R tot ds xs [] g = Inr ([] @ out, g') \<and>
           length out = length xs * length ds \<and> (\<forall>r\<in>set out. True)"
    by (rule ciclo_appezzamenti_blocco) simp
  then obtain B1 g1 where 1: "ciclo_appezzamenti R tot ds xs [] g = Inr (B1, g1)" by auto
  have "\<exists>blk g'. ciclo_giorni R a tot 0 ds B1 g1 = Inr (B1 @ blk, g') \<and>
           length blk = length ds \<and>
           (\<forall>r\<in>set blk. riga_id_appezzamento r = id_appezzamento a)"
    by (rule ciclo_giorni_blocco) (auto dest: giorno_id)
  then obtain blk g2 where b: "ciclo_giorni R a tot 0 ds B1 g1 = Inr (B1 @ blk, g2)"
    and l: "length blk = length ds"
    and i: "\<forall>r\<in>set blk. riga_id_appezzamento r = id_appezzamento a" by blast
  have "\<exists>blk g'. ciclo_giorni R a' tot 0 ds B1 g1 = Inr (B1 @ blk, g') \<and>
           length blk = length ds \<and>
           (\<forall>r\<in>set blk. riga_id_appezzamento r = id_appezzamento a')"
    by (rule ciclo_giorni_blocco) (auto dest: giorno_id)
  then obtain blk' g2' where b': "ciclo_giorni R a' tot 0 ds B1 g1 = Inr (B1 @ blk', g2')"
    and l': "length blk' = length ds"
    and i': "\<forall>r\<in>set blk'. riga_id_appezzamento r = id_appezzamento a'" by blast
  have "map_sum id snd (ciclo_giorni R a tot 0 ds B1 g1) =
        map_sum id snd (ciclo_giorni R a' tot 0 ds B1 g1)"
    by (rule ciclo_giorni_stato) simp
  with b b' have g: "g2' = g2" by simp
  have "\<exists>out g'. ciclo_appezzamenti R tot ds ys [] g2 = Inr ([] @ out, g') \<and>
           length out = length ys * length ds \<and> (\<forall>r\<in>set out. True)"
    by (rule ciclo_appezzamenti_blocco) simp
  then obtain B3 gf where 3: "ciclo_appezzamenti R tot ds ys [] g2 = Inr (B3, gf)" by auto
  have 4: "ciclo_appezzamenti R tot ds ys pre g2 = Inr (pre @ B3, gf)" for pre
    by (subst ciclo_appezzamenti_prefix) (simp add: 3)
  have "ciclo_appezzamenti R tot ds (xs @ a # ys) [] g = Inr (B1 @ blk @ B3, gf)"
    by (simp add: ciclo_appezzamenti_append 1 b 4)
  moreover have "ciclo_appezzamenti R tot ds (xs @ a' # ys) [] g = Inr (B1 @ blk' @ B3, gf)"
    by (simp add: ciclo_appezzamenti_append 1 b' g 4)
  ultimately show ?thesis using l l' i i' by (intro exI conjI) auto
qed

lemma filter_tabella:
  "filter (\<lambda>r. riga_id_appezzamento r = x)
     (map arrotonda (sort_key (\<lambda>r. (data r, riga_id_appezzamento r)) records)) =
   map arrotonda (sort_key (\<lambda>r. (data r, riga_id_appezzamento r))
     (filter (\<lambda>r. riga_id_appezzamento r = x) records))"
proof -
  have "(\<lambda>r. riga_id_appezzamento r = x) \<circ> arrotonda = (\<lambda>r. riga_id_appezzamento r = x)"
    by (rule ext) (simp add: arrotonda_def)
  then show ?thesis by (simp add: filter_map filter_sort)
qed

lemma genera_dati_records:
  assumes se: "s \<le> e" and ne: "plots \<noteq> []"
    and c: "ciclo_appezzamenti R (e - s + 1) (date_range s e) plots []
              (default_rng R w seed) = Inr (records, gf)"
  shows "fst (genera_dati R w s e (Some plots) seed csv nf) =
           (if csv \<and> (mkdir_fails w \<or> write_fails w (nome_csv w nf)) then Inl OSError
            else Inr (map arrotonda
                   (sort_key (\<lambda>r. (data r, riga_id_appezzamento r)) records)))"
proof -
  have "\<exists>records g'.
           ciclo_appezzamenti R (e - s + 1) (date_range s e) plots []
             (default_rng R w seed) = Inr (records, g') \<and>
           length records = length plots * nat (e - s + 1) \<and>
           (\<forall>r\<in>set records. True) \<and>
           genera_dati R w s e (Some plots) seed csv nf =
             (let df = map arrotonda
                         (sort_key (\<lambda>r. (data r, riga_id_appezzamento r)) records)
              in if csv then salva w nf df else (Inr df, w))"
    using se ne by (rule genera_dati_valid) simp_all
  with c show ?thesis by (auto simp: Let_def fst_salva)
qed

text \<open>
  C6. Replacing the descriptor of one plot, the seed and the order of the plots being
  the same, leaves the rows of every other plot as they were: for an identifier that is
  neither the old nor the new one of the replaced plot, the rows of the returned table
  that carry it are the same in both runs (and so is a failure). The block of rows of a
  plot does not depend on the rows already in \<open>records\<close>: the first day reads none of
  them, a later day reads the row the same plot appended the day before.
\<close>

theorem isolamento:
  assumes "k < length plots"
    and "x \<noteq> id_appezzamento (plots ! k)"
    and "x \<noteq> id_appezzamento a'"
  shows "map_sum id (filter (\<lambda>r. riga_id_appezzamento r = x))
           (fst (genera_dati R w data_inizio data_fine (Some (plots[k := a'])) random_state
                   salva_csv nome_file)) =
         map_sum id (filter (\<lambda>r. riga_id_appezzamento r = x))
           (fst (genera_dati R w data_inizio data_fine (Some plots) random_state
                   salva_csv nome_file)) \<and>
         (\<forall>appez tot ds records g.
            ciclo_giorni R appez tot 0 ds records g =
              map_sum id (\<lambda>(blk, g'). (records @ blk, g'))
                (ciclo_giorni R appez tot 0 ds [] g))"
proof (intro conjI allI)
  fix appez tot ds records g
  have "ciclo_giorni R appez tot 0 ds (records @ []) g =
          map_sum id (\<lambda>(out, g'). (records @ out, g')) (ciclo_giorni R appez tot 0 ds [] g)"
    by (rule ciclo_giorni_prefix) simp
  then show "ciclo_giorni R appez tot 0 ds records g =
              map_sum id (\<lambda>(blk, g'). (records @ blk, g'))
                (ciclo_giorni R appez tot 0 ds [] (g :: 'a))" by simp
next
  let ?P = "\<lambda>r. riga_id_appezzamento r = x"
  let ?G = "\<lambda>ps. fst (genera_dati R w data_inizio data_fine (Some ps) random_state
                   salva_csv nome_file)"
  show "map_sum id (filter ?P) (?G (plots[k := a'])) = map_sum id (filter ?P) (?G plots)"
  proof (cases "data_inizio \<le> data_fine")
    case False
    then show ?thesis by (simp add: genera_dati_invalid)
  next
    case True
    let ?xs = "take k plots" and ?a = "plots ! k" and ?ys = "drop (Suc k) plots"
    from assms(1) have p: "plots = ?xs @ ?a # ?ys" by (rule id_take_nth_drop)
    from assms(1) have p': "plots[k := a'] = ?xs @ a' # ?ys" by (rule upd_conv_take_nth_drop)
    from ciclo_appezzamenti_sostituzione [of R "data_fine - data_inizio + 1"
        "date_range data_inizio data_fine" ?xs ?a ?ys
        "default_rng R w random_state" a']
    obtain B1 blk blk' B3 gf where
      c: "ciclo_appezzamenti R (data_fine - data_inizio + 1) (date_range data_inizio data_fine)
            (?xs @ ?a # ?ys) [] (default_rng R w random_state) = Inr (B1 @ blk @ B3, gf)"
      and c': "ciclo_appezzamenti R (data_fine - data_inizio + 1)
            (date_range data_inizio data_fine)
            (?xs @ a' # ?ys) [] (default_rng R w random_state) = Inr (B1 @ blk' @ B3, gf)"
      and i: "\<forall>r\<in>set blk. riga_id_appezzamento r = id_appezzamento ?a"
      and i': "\<forall>r\<in>set blk'. riga_id_appezzamento r = id_appezzamento a'" by blast
    from i assms(2) have f: "filter ?P blk = []" by (auto simp: filter_empty_conv)
    from i' assms(3) have f': "filter ?P blk' = []" by (auto simp: filter_empty_conv)
    have ne: "?xs @ ?a # ?ys \<noteq> []" "?xs @ a' # ?ys \<noteq> []" by simp_all
    have "?G (?xs @ ?a # ?ys) =
           (if salva_csv \<and> (mkdir_fails w \<or> write_fails w (nome_csv w nome_file))
            then Inl OSError
            else Inr (map arrotonda
                   (sort_key (\<lambda>r. (data r, riga_id_appezzamento r)) (B1 @ blk @ B3))))"
      using True ne(1) c by (rule genera_dati_records)
    moreover have "?G (?xs @ a' # ?ys) =
           (if salva_csv \<and> (mkdir_fails w \<or> write_fails w (nome_csv w nome_file))
            then Inl OSError
            else Inr (map arrotonda
                   (sort_key (\<lambda>r. (data r, riga_id_appezzamento r)) (B1 @ blk' @ B3))))"
      using True ne(2) c' by (rule genera_dati_records)
    ultimately have "map_sum id (filter ?P) (?G (?xs @ a' # ?ys)) =
                     map_sum id (filter ?P) (?G (?xs @ ?a # ?ys))"
      by (simp add: filter_tabella f f')
    then show ?thesis using p p' by simp
  qed
qed

theorem isolamento_witness:
  "(2::nat) < length get_appezzamenti_default \<and>
   ''A1'' \<noteq> id_appezzamento (get_appezzamenti_default ! 2) \<and>
   ''A1'' \<noteq> id_appezzamento a3_nuovo \<and>
   map_sum id (filter (\<lambda>r. riga_id_appezzamento r = ''A1''))
     (fst (genera_dati rng_esempio mondo_esempio 738886 738888
             (Some (get_appezzamenti_default[2 := a3_nuovo])) (Some 42) False None)) =
   map_sum id (filter (\<lambda>r. riga_id_appezzamento r = ''A1''))
     (fst (genera_dati rng_esempio mondo_esempio 738886 738888
             (Some get_appezzamenti_default) (Some 42) False None))"
proof -
  have 1: "(2::nat) < length get_appezzamenti_default"
    by (simp add: get_appezzamenti_default_def)
  have 2: "''A1'' \<noteq> id_appezzamento (get_appezzamenti_default ! 2)"
    by (simp add: get_appezzamenti_default_def)
  have 3: "''A1'' \<noteq> id_appezzamento a3_nuovo" by (simp add: a3_nuovo_def)
  from isolamento [OF 1 2 3, of rng_esempio mondo_esempio 738886 738888 "Some 42" False None]
    1 2 3 show ?thesis by blast
qed

subsection \<open>A day worked out\<close>

lemma lower_grano: "lower ''Grano'' = ''grano''"
  by code_simp

lemma suolo0: "suolo rng_esempio [] 0 x 44 = Inr ((42, 60, 38, 58), 48)"
  by (simp add: suolo_def rng_esempio_def Let_def)

lemma prec0: "precipitazioni rng_esempio 43 = (0, 44)"
  by (simp add: precipitazioni_def rng_esempio_def Let_def)

lemma temp0: "snd (temperatura rng_esempio 738886 42) = 43"
  by (simp add: temperatura_def rng_esempio_def Let_def split_beta)

lemma cres0: "crescita rng_esempio ''Grano'' 0 48 = (3 / 40, 49)"
  by (simp add: crescita_def lower_grano Let_def clip_def) (simp add: rng_esempio_def)

lemma resa0: "resa rng_esempio (3 / 40) 42 60 38 58 (25 / 2) 49 = ((3 / 2, 75 / 4), 50)"
  by (simp add: resa_eq spec_yield_kg_ha_def spec_moisture_penalty_def
      spec_nutrient_penalty_def Let_def) (simp add: rng_esempio_def)

lemma eco0: "economia rng_esempio ''Grano'' (75 / 4) 50 = ((31, 75 / 16, 75 / 16 - 31), 52)"
  by (simp add: economia_def lower_grano Let_def rng_esempio_def)

text \<open>
  The first day of plot \<open>A1\<close> in a three-day run, from generator state 42: no rain,
  moisture 42, nutrients 60, 38 and 58, growth stage 0.075, yield 1.5 kg/ha and 18.75 kg
  on 12.5 ha, cost 31, revenue 4.6875.
\<close>

lemma giorno0:
  "\<exists>t. giorno rng_esempio (hd get_appezzamenti_default) 3 0 738886 [] 42 =
     Inr (\<lparr>data = 738886, riga_id_appezzamento = ''A1'', riga_coltura = ''Grano'',
            riga_superficie_ha = 25 / 2, temperatura_c = t, umidita_suolo_pct = 42,
            precipitazioni_mm = 0, nutrienti_n = 60, nutrienti_p = 38, nutrienti_k = 58,
            stadio_crescita = 3 / 40, resa_kg_ha = 3 / 2, resa_totale_kg = 75 / 4,
            costo_totale_eur = 31, ricavi_totali_eur = 75 / 16,
            margine_eur = 75 / 16 - 31\<rparr>, 52)"
proof -
  have s: "suolo rng_esempio [] 0
       (fst (precipitazioni rng_esempio (snd (temperatura rng_esempio 738886 42))))
       (snd (precipitazioni rng_esempio (snd (temperatura rng_esempio 738886 42))))
       = Inr ((42, 60, 38, 58), 48)"
    by (simp add: temp0 prec0 suolo0)
  show ?thesis
    unfolding giorno_Inr [OF s]
    by (simp add: get_appezzamenti_default_def temp0 prec0 cres0 resa0 eco0)
qed

text \<open>The bound 0.001 on the rounded margin is reached, so it cannot be made strict.\<close>

lemma round3_diff_attained:
  "round3 (0.0004 - 0.0006) - (round3 0.0004 - round3 0.0006) = 0.001"
  by (simp add: round3_def rint_def)

end
